theory Spec2Isabelle
  imports Main
begin

section \<open>JavaScript values and objects\<close>

text \<open>
  The components only move plain data around: style objects, props objects, flags,
  strings and callbacks. A value is one of the JavaScript primitives, a function (known
  by a name only, it is never looked into) or an object, which is a finite map from
  property names to values. Numbers are restricted to integers; the code compares a
  number with \<open>0\<close> and \<open>1\<close> only.
\<close>

datatype jsval =
    JUndefined
  | JNull
  | JBool bool
  | JNum int
  | JStr string
  | JFun string
  | JObj "string \<Rightarrow> jsval option"

type_synonym jsobj = "string \<Rightarrow> jsval option"

text \<open>The test \<open>if (v)\<close> and \<open>v ? a : b\<close>: JavaScript's ToBoolean.\<close>

fun truthy :: "jsval \<Rightarrow> bool" where
  "truthy JUndefined = False"
| "truthy JNull = False"
| "truthy (JBool b) = b"
| "truthy (JNum n) = (n \<noteq> 0)"
| "truthy (JStr s) = (s \<noteq> [])"
| "truthy (JFun f) = True"
| "truthy (JObj m) = True"

text \<open>Property access \<open>obj.k\<close> on a plain object: a missing key reads as \<open>undefined\<close>.\<close>

definition get :: "jsobj \<Rightarrow> string \<Rightarrow> jsval" where
  "get obj k = (case obj k of None \<Rightarrow> JUndefined | Some v \<Rightarrow> v)"

text \<open>
  The own enumerable properties a value contributes when it is spread into an object
  literal (\<open>{...v}\<close>): an object contributes its properties, a string its characters
  under their decimal indices, every other value (\<open>undefined\<close> and \<open>null\<close> among
  them) nothing.
\<close>

fun decimal :: "nat \<Rightarrow> string" where
  "decimal n =
     (if n < 10 then [''0123456789'' ! n]
      else decimal (n div 10) @ [''0123456789'' ! (n mod 10)])"

fun ownProps :: "jsval \<Rightarrow> jsobj" where
  "ownProps (JObj m) = m"
| "ownProps (JStr s) = map_of (zip (map decimal [0..<length s]) (map (\<lambda>c. JStr [c]) s))"
| "ownProps v = Map.empty"

text \<open>
  The object literal \<open>{...a, ...b, ...c}\<close>: the values are copied in from left to right
  into a fresh object, so a later one overwrites the properties it shares with an
  earlier one.
\<close>

definition spread :: "jsval list \<Rightarrow> jsobj" where
  "spread vs = foldl (\<lambda>target v. target ++ ownProps v) Map.empty vs"

subsection \<open>Helpers of \<open>utils/helpers\<close>\<close>

text \<open>
  Modelled from the spec: \<open>omit\<close> of \<open>utils/helpers\<close> is not among the sources. The
  spec gives it as \<open>omit(obj, keys) -> obj'\<close>, the object with the listed keys removed.
\<close>

definition omit :: "jsobj \<Rightarrow> string list \<Rightarrow> jsobj" where
  "omit obj fields = (\<lambda>k. if k \<in> set fields then None else obj k)"

text \<open>
  Modelled from the spec: \<open>has\<close> of \<open>utils/helpers\<close> is not among the sources. The
  spec has the per-instance option win over the shared default unless it is unset, so
  \<open>has(obj, key)\<close> says whether the object carries the key.
\<close>

definition has :: "jsobj \<Rightarrow> string \<Rightarrow> bool" where
  "has obj k = (obj k \<noteq> None)"

section \<open>Rendered elements, events and effects\<close>

text \<open>
  What \<open>render\<close> returns: the element type, the attribute object handed to it and the
  children. Attributes written before a spread in the JSX are overwritten by the spread
  where the names coincide.
\<close>

record element =
  elType :: string
  elProps :: jsobj
  elChildren :: jsval

text \<open>
  The events the handlers are given. A mouse event is read for its \<open>button\<close>, a touch
  event for its list of \<open>touches\<close>; focus and blur events are only passed on.
\<close>

record mouse_event =
  button :: int

record touch_event =
  touches :: "nat list"

datatype focus_event = FocusEvent

datatype event = OfMouse mouse_event | OfTouch touch_event | OfFocus focus_event

text \<open>One entry of the array given to \<open>injectStyles\<close>; \<open>disabled\<close> is absent on three of the four.\<close>

record style_rule =
  id' :: jsval
  style :: jsobj
  pseudoClass :: string
  disabled :: "bool option"

text \<open>
  What a lifecycle method or handler does to the outside, in the order it does it:
  calls of the style-injection module, \<open>setState\<close> and \<open>forceUpdate\<close> requests to the
  rendering library, and calls of the caller's callbacks (the value called and the
  event it is called with).
\<close>

datatype state_patch = Active bool | ChildProps jsobj

datatype effect =
    InjectStyles "style_rule list"
  | RemoveStyle jsval
  | SetState state_patch
  | ForceUpdate
  | Invoke jsval event

text \<open>The rules an effect list hands to \<open>injectStyles\<close>, in order.\<close>

fun injected :: "effect \<Rightarrow> style_rule list" where
  "injected (InjectStyles rules) = rules"
| "injected e = []"

definition injectedRules :: "effect list \<Rightarrow> style_rule list" where
  "injectedRules es = concat (map injected es)"

text \<open>\<open>if (this.props.h) { this.props.h(event); }\<close>\<close>

definition callIfProvided :: "jsobj \<Rightarrow> string \<Rightarrow> event \<Rightarrow> effect list" where
  "callIfProvided properties h ev =
     (if truthy (get properties h) then [Invoke (get properties h) ev] else [])"

section \<open>Placeholder\<close>

text \<open>
  A component instance holds the props it was last given and, in its state, the props
  it forwards to the native element.
\<close>

record component =
  props :: jsobj
  childProps :: jsobj

definition Placeholder_sanitizeChildProps :: "jsobj \<Rightarrow> jsobj" where
  "Placeholder_sanitizeChildProps properties =
     omit properties [''style'', ''disabledStyle'', ''_isDisabled'']"

definition Placeholder_constructor :: "jsobj \<Rightarrow> component" where
  "Placeholder_constructor properties =
     \<lparr>props = properties, childProps = Placeholder_sanitizeChildProps properties\<rparr>"

text \<open>
  \<open>componentWillReceiveProps\<close> runs while \<open>this.props\<close> still holds the old props; the
  rendering library stores the new ones before it renders again
  (\<open>Placeholder_receive\<close>).
\<close>

definition Placeholder_componentWillReceiveProps ::
    "jsobj \<Rightarrow> component \<Rightarrow> component \<times> effect list" where
  "Placeholder_componentWillReceiveProps properties this =
     (this\<lparr>childProps := Placeholder_sanitizeChildProps properties\<rparr>,
      [SetState (ChildProps (Placeholder_sanitizeChildProps properties))])"

definition Placeholder_receive :: "jsobj \<Rightarrow> component \<Rightarrow> component" where
  "Placeholder_receive properties this =
     (fst (Placeholder_componentWillReceiveProps properties this))\<lparr>props := properties\<rparr>"

text \<open>The local \<open>computedStyle\<close> of \<open>render\<close>; \<open>sty\<close> is the table of \<open>style/placeholder\<close>.\<close>

definition Placeholder_computedStyle :: "jsobj \<Rightarrow> jsobj \<Rightarrow> jsobj" where
  "Placeholder_computedStyle sty properties =
     (let computedStyle = spread [get sty ''style'', get properties ''style'']
      in if truthy (get properties ''_isDisabled'')
         then spread [JObj computedStyle, get sty ''disabledStyle'',
                      get properties ''disabledStyle'']
         else computedStyle)"

definition Placeholder_render :: "jsobj \<Rightarrow> component \<Rightarrow> element" where
  "Placeholder_render sty this =
     \<lparr>elType = ''div'',
      elProps = [''style'' \<mapsto> JObj (Placeholder_computedStyle sty (props this))]
                ++ childProps this,
      elChildren = get (props this) ''children''\<rparr>"

section \<open>Button\<close>

record button = component +
  active :: bool
  focused :: bool
  mouseDownOnButton :: bool
  preventFocusStyleForTouchAndClick :: jsval
  styleId :: jsval

definition sanitizeChildProps :: "jsobj \<Rightarrow> jsobj" where
  "sanitizeChildProps properties =
     omit properties
       [''className'', ''style'', ''hoverStyle'', ''focusStyle'', ''activeStyle'',
        ''disabledStyle'', ''disabledHoverStyle'', ''primary'', ''onTouchStart'',
        ''onTouchEnd'', ''onTouchCancel'', ''onMouseDown'', ''onFocus'', ''onBlur'']"

text \<open>
  The four rule sets built by \<open>updatePseudoClassStyle\<close>; \<open>sty\<close> is the table of
  \<open>style/button\<close>.
\<close>

definition pseudoClassStyles :: "jsobj \<Rightarrow> jsval \<Rightarrow> jsobj \<Rightarrow> jsval \<Rightarrow> style_rule list" where
  "pseudoClassStyles sty sid properties prevent =
     (let baseHoverStyle =
            (if truthy (get properties ''primary'')
             then get sty ''primaryHoverStyle'' else get sty ''hoverStyle'');
          baseActiveStyle =
            (if truthy (get properties ''primary'')
             then get sty ''primaryActiveStyle'' else get sty ''activeStyle'');
          baseDisabledHoverStyle =
            (if truthy (get properties ''primary'')
             then get sty ''primaryDisabledHoverStyle'' else get sty ''disabledHoverStyle'');
          hoverStyle = spread [baseHoverStyle, get properties ''hoverStyle''];
          activeStyle = spread [baseActiveStyle, get properties ''activeStyle''];
          disabledHoverStyle =
            spread [baseDisabledHoverStyle, get properties ''disabledHoverStyle''];
          focusStyle =
            (if truthy prevent then [''outline'' \<mapsto> JNum 0]
             else (let baseFocusStyle =
                         (if truthy (get properties ''primary'')
                          then get sty ''primaryFocusStyle'' else get sty ''focusStyle'')
                   in spread [baseFocusStyle, get properties ''focusStyle'']))
      in [\<lparr>id' = sid, style = hoverStyle, pseudoClass = ''hover'', disabled = None\<rparr>,
          \<lparr>id' = sid, style = activeStyle, pseudoClass = ''active'', disabled = None\<rparr>,
          \<lparr>id' = sid, style = disabledHoverStyle, pseudoClass = ''hover'',
            disabled = Some True\<rparr>,
          \<lparr>id' = sid, style = focusStyle, pseudoClass = ''focus'', disabled = None\<rparr>])"

definition updatePseudoClassStyle :: "jsobj \<Rightarrow> jsval \<Rightarrow> jsobj \<Rightarrow> jsval \<Rightarrow> effect list" where
  "updatePseudoClassStyle sty sid properties prevent =
     [InjectStyles (pseudoClassStyles sty sid properties prevent)]"

text \<open>
  \<open>has(properties, 'preventFocusStyleForTouchAndClick') ? properties... : config...\<close>;
  \<open>config\<close> is the object of \<open>config/button\<close>.
\<close>

definition resolvePrevent :: "jsobj \<Rightarrow> jsobj \<Rightarrow> jsval" where
  "resolvePrevent config properties =
     (if has properties ''preventFocusStyleForTouchAndClick''
      then get properties ''preventFocusStyleForTouchAndClick''
      else get config ''preventFocusStyleForTouchAndClick'')"

definition Button_constructor :: "jsobj \<Rightarrow> jsobj \<Rightarrow> button" where
  "Button_constructor config properties =
     \<lparr>props = properties,
      childProps = sanitizeChildProps properties,
      active = False,
      focused = False,
      mouseDownOnButton = False,
      preventFocusStyleForTouchAndClick = resolvePrevent config properties,
      styleId = JUndefined\<rparr>"

text \<open>\<open>_rootNodeID.replace(/\./g, '-')\<close> and the template \<open>`style-id${id}`\<close>.\<close>

definition componentWillMount :: "jsobj \<Rightarrow> string \<Rightarrow> button \<Rightarrow> button \<times> effect list" where
  "componentWillMount sty rootNodeID this =
     (let ident = map (\<lambda>c. if c = CHR ''.'' then CHR ''-'' else c) rootNodeID;
          this1 = this\<lparr>styleId := JStr (''style-id'' @ ident)\<rparr>
      in (this1,
          updatePseudoClassStyle sty (styleId this1) (props this1)
            (preventFocusStyleForTouchAndClick this1)))"

definition componentWillReceiveProps ::
    "jsobj \<Rightarrow> jsobj \<Rightarrow> jsobj \<Rightarrow> button \<Rightarrow> button \<times> effect list" where
  "componentWillReceiveProps config sty properties this =
     (let this1 = this\<lparr>preventFocusStyleForTouchAndClick := resolvePrevent config properties\<rparr>;
          this2 = this1\<lparr>childProps := sanitizeChildProps properties\<rparr>
      in (this2,
          [SetState (ChildProps (sanitizeChildProps properties)),
           RemoveStyle (styleId this2)]
          @ updatePseudoClassStyle sty (styleId this2) properties
              (preventFocusStyleForTouchAndClick this2)))"

definition componentDidUpdate :: "button \<Rightarrow> button" where
  "componentDidUpdate this = this\<lparr>focused := False, mouseDownOnButton := False\<rparr>"


subsection \<open>Event handlers\<close>

text \<open>
  The source names them \<open>_onFocus\<close>, \<open>_onBlur\<close>, \<open>_onMouseDown\<close>, \<open>_onTouchStart\<close>,
  \<open>_onTouchEnd\<close> and \<open>_onTouchCancel\<close>. A \<open>setState\<close> is recorded as an effect and its
  patch is written into the instance at once: nothing in a handler reads the state
  after the request, and the rendering library applies it before it renders again.
  The call of the caller's callback is the last statement of every handler.
\<close>

definition onFocus :: "focus_event \<Rightarrow> button \<Rightarrow> button \<times> effect list" where
  "onFocus ev this =
     (this\<lparr>focused := True\<rparr>,
      [ForceUpdate] @ callIfProvided (props this) ''onFocus'' (OfFocus ev))"

definition onBlur :: "focus_event \<Rightarrow> button \<Rightarrow> button \<times> effect list" where
  "onBlur ev this =
     (this\<lparr>focused := False, active := False\<rparr>,
      [SetState (Active False)] @ callIfProvided (props this) ''onBlur'' (OfFocus ev))"

definition onMouseDown :: "mouse_event \<Rightarrow> button \<Rightarrow> button \<times> effect list" where
  "onMouseDown ev this =
     ((if button ev = 0 \<and> \<not> truthy (get (props this) ''disabled'')
       then this\<lparr>mouseDownOnButton := True\<rparr> else this),
      callIfProvided (props this) ''onMouseDown'' (OfMouse ev))"

definition onTouchStart :: "touch_event \<Rightarrow> button \<Rightarrow> button \<times> effect list" where
  "onTouchStart ev this =
     (if \<not> truthy (get (props this) ''disabled'') \<and> length (touches ev) = 1
      then (this\<lparr>active := True\<rparr>,
            [SetState (Active True)] @ callIfProvided (props this) ''onTouchStart'' (OfTouch ev))
      else (this, callIfProvided (props this) ''onTouchStart'' (OfTouch ev)))"

definition onTouchEnd :: "touch_event \<Rightarrow> button \<Rightarrow> button \<times> effect list" where
  "onTouchEnd ev this =
     (this\<lparr>active := False\<rparr>,
      [SetState (Active False)] @ callIfProvided (props this) ''onTouchEnd'' (OfTouch ev))"

definition onTouchCancel :: "touch_event \<Rightarrow> button \<Rightarrow> button \<times> effect list" where
  "onTouchCancel ev this =
     (this\<lparr>active := False\<rparr>,
      [SetState (Active False)] @ callIfProvided (props this) ''onTouchEnd'' (OfTouch ev))"

subsection \<open>Render\<close>

text \<open>The local \<open>buttonStyle\<close> of \<open>render\<close>.\<close>

definition buttonStyle :: "jsobj \<Rightarrow> button \<Rightarrow> jsobj" where
  "buttonStyle sty this =
     (let baseStyle =
            (if truthy (get (props this) ''primary'')
             then get sty ''primaryStyle'' else get sty ''style'');
          baseButtonStyle = spread [baseStyle, get (props this) ''style'']
      in if truthy (get (props this) ''disabled'')
         then (if truthy (get (props this) ''primary'')
               then spread [JObj baseButtonStyle, get sty ''primaryDisabledStyle'',
                            get (props this) ''disabledStyle'']
               else spread [JObj baseButtonStyle, get sty ''disabledStyle'',
                            get (props this) ''disabledStyle''])
         else (if active this
               then (let baseActiveStyle =
                           (if truthy (get (props this) ''primary'')
                            then get sty ''primaryActiveStyle'' else get sty ''activeStyle'')
                     in spread [JObj baseButtonStyle, baseActiveStyle,
                                get (props this) ''activeStyle''])
               else if focused this \<and> \<not> active this \<and> \<not> mouseDownOnButton this
                       \<and> truthy (preventFocusStyleForTouchAndClick this)
               then (let baseFocusStyle =
                           (if truthy (get (props this) ''primary'')
                            then get sty ''primaryFocusStyle'' else get sty ''focusStyle'')
                     in spread [JObj baseButtonStyle, baseFocusStyle,
                                get (props this) ''focusStyle''])
               else baseButtonStyle))"

text \<open>
  Which arm of the \<open>if\<close> cascade of \<open>render\<close> (lines 279 to 314) computes
  \<open>buttonStyle\<close>: the same tests in the same order, without the styles.
\<close>

datatype style_branch = DisabledBranch | ActiveBranch | FocusBranch | PlainBranch

definition styleBranch :: "button \<Rightarrow> style_branch" where
  "styleBranch this =
     (if truthy (get (props this) ''disabled'') then DisabledBranch
      else if active this then ActiveBranch
      else if focused this \<and> \<not> active this \<and> \<not> mouseDownOnButton this
              \<and> truthy (preventFocusStyleForTouchAndClick this)
      then FocusBranch
      else PlainBranch)"

text \<open>
  The element returned by \<open>render\<close>. \<open>unionClassNames\<close> (of \<open>utils/union-class-names\<close>)
  is a parameter. The six handlers are the instance's bound methods.
\<close>

definition Button_render ::
    "jsobj \<Rightarrow> (jsval \<Rightarrow> jsval \<Rightarrow> jsval) \<Rightarrow> button \<Rightarrow> element" where
  "Button_render sty unionClassNames this =
     \<lparr>elType = ''button'',
      elProps =
        [''style'' \<mapsto> JObj (buttonStyle sty this),
         ''className'' \<mapsto> unionClassNames (get (props this) ''className'') (styleId this),
         ''onTouchStart'' \<mapsto> JFun ''_onTouchStart'',
         ''onTouchEnd'' \<mapsto> JFun ''_onTouchEnd'',
         ''onTouchCancel'' \<mapsto> JFun ''_onTouchCancel'',
         ''onFocus'' \<mapsto> JFun ''_onFocus'',
         ''onBlur'' \<mapsto> JFun ''_onBlur'',
         ''onMouseDown'' \<mapsto> JFun ''_onMouseDown'']
        ++ childProps this,
      elChildren = get (props this) ''children''\<rparr>"

section \<open>The rendering library and the style registry\<close>

text \<open>
  Modelled from the spec: the rendering library is not among the sources. The spec has
  it re-invoke \<open>render\<close> on state and prop changes through the lifecycle hooks, run a
  handler fully before the render it schedules, and run the post-render hook after
  every completed render-and-commit cycle. One \<open>action\<close> is one external event: new
  props from the parent, or a DOM event on the native button.
\<close>

datatype action =
    ReceiveProps jsobj
  | Focus focus_event
  | Blur focus_event
  | MouseDown mouse_event
  | TouchStart touch_event
  | TouchEnd touch_event
  | TouchCancel touch_event

fun handle :: "jsobj \<Rightarrow> jsobj \<Rightarrow> action \<Rightarrow> button \<Rightarrow> button \<times> effect list" where
  "handle config sty (ReceiveProps properties) this =
     (let (this1, es) = componentWillReceiveProps config sty properties this
      in (this1\<lparr>props := properties\<rparr>, es))"
| "handle config sty (Focus ev) this = onFocus ev this"
| "handle config sty (Blur ev) this = onBlur ev this"
| "handle config sty (MouseDown ev) this = onMouseDown ev this"
| "handle config sty (TouchStart ev) this = onTouchStart ev this"
| "handle config sty (TouchEnd ev) this = onTouchEnd ev this"
| "handle config sty (TouchCancel ev) this = onTouchCancel ev this"

fun requestsRender :: "effect \<Rightarrow> bool" where
  "requestsRender (SetState p) = True"
| "requestsRender ForceUpdate = True"
| "requestsRender e = False"

text \<open>
  The result of one action: the instance afterwards, the instance as it stood when
  \<open>render\<close> ran (if the action led to a render) and the effects of the handler.
\<close>

record outcome =
  after :: button
  rendered :: "button option"
  effects :: "effect list"

definition dispatch :: "jsobj \<Rightarrow> jsobj \<Rightarrow> action \<Rightarrow> button \<Rightarrow> outcome" where
  "dispatch config sty a this =
     (let (this1, es) = handle config sty a this
      in if list_ex requestsRender es
         then \<lparr>after = componentDidUpdate this1, rendered = Some this1, effects = es\<rparr>
         else \<lparr>after = this1, rendered = None, effects = es\<rparr>)"

text \<open>
  A sequence of actions, each with its outcome (\<open>run\<close>), and the instance it leaves
  (\<open>final\<close>).
\<close>

fun run :: "jsobj \<Rightarrow> jsobj \<Rightarrow> action list \<Rightarrow> button \<Rightarrow> (action \<times> outcome) list" where
  "run config sty [] this = []"
| "run config sty (a # acts) this =
     (let r = dispatch config sty a this in (a, r) # run config sty acts (after r))"

fun final :: "jsobj \<Rightarrow> jsobj \<Rightarrow> action list \<Rightarrow> button \<Rightarrow> button" where
  "final config sty [] this = this"
| "final config sty (a # acts) this =
     final config sty acts (after (dispatch config sty a this))"

text \<open>Mounting: the constructor, then \<open>componentWillMount\<close> with the node id.\<close>

definition mount :: "jsobj \<Rightarrow> jsobj \<Rightarrow> string \<Rightarrow> jsobj \<Rightarrow> button \<times> effect list" where
  "mount config sty rootNodeID properties =
     componentWillMount sty rootNodeID (Button_constructor config properties)"



section \<open>The specification's readings\<close>

text \<open>
  The spec's merge rule, property by property: among the layers that define a
  property, the last one gives its value.
\<close>

fun laterWins :: "jsobj list \<Rightarrow> jsobj" where
  "laterWins [] k = None"
| "laterWins (l # ls) k = (case laterWins ls k of Some v \<Rightarrow> Some v | None \<Rightarrow> l k)"

text \<open>The test of lines 301 to 304 of \<open>render\<close>.\<close>

definition oneTimeFocus :: "button \<Rightarrow> bool" where
  "oneTimeFocus this =
     (focused this \<and> \<not> active this \<and> \<not> mouseDownOnButton this
      \<and> truthy (preventFocusStyleForTouchAndClick this))"

text \<open>The variant's entry of the style table: the primary one if \<open>primary\<close>.\<close>

definition variant :: "jsobj \<Rightarrow> jsobj \<Rightarrow> string \<Rightarrow> string \<Rightarrow> jsval" where
  "variant sty properties plain primary =
     (if truthy (get properties ''primary'') then get sty primary else get sty plain)"

text \<open>
  The spec's style composer, steps 1 to 6: the layers of a Button's inline style, in
  the order they are applied.
\<close>

definition spec_layers :: "jsobj \<Rightarrow> button \<Rightarrow> jsval list" where
  "spec_layers sty this =
     [variant sty (props this) ''style'' ''primaryStyle'', get (props this) ''style'']
     @ (if truthy (get (props this) ''disabled'')
        then [variant sty (props this) ''disabledStyle'' ''primaryDisabledStyle'',
              get (props this) ''disabledStyle'']
        else if active this
        then [variant sty (props this) ''activeStyle'' ''primaryActiveStyle'',
              get (props this) ''activeStyle'']
        else if oneTimeFocus this
        then [variant sty (props this) ''focusStyle'' ''primaryFocusStyle'',
              get (props this) ''focusStyle'']
        else [])"

text \<open>
  What the \<open>PropTypes.bool\<close> of \<open>propTypes\<close> admits for an optional prop: a boolean, or
  nothing.
\<close>

fun propTypesBool :: "jsval \<Rightarrow> bool" where
  "propTypesBool (JBool b) = True"
| "propTypesBool JUndefined = True"
| "propTypesBool JNull = True"
| "propTypesBool v = False"

text \<open>
  The props that \<open>propTypes\<close> declares \<open>PropTypes.bool\<close> (lines 136, 149 and 150).
  The Button's own code reads each of them: \<open>disabled\<close> in \<open>render\<close> and in the
  mouse and touch handlers, \<open>preventFocusStyleForTouchAndClick\<close> in the constructor
  and in \<open>componentWillReceiveProps\<close>, \<open>primary\<close> in \<open>render\<close> and in
  \<open>updatePseudoClassStyle\<close>.
\<close>

definition Button_flags :: "string list" where
  "Button_flags = [''disabled'', ''preventFocusStyleForTouchAndClick'', ''primary'']"



section \<open>Example data\<close>

definition demoStyle :: jsobj where
  "demoStyle =
     [''style'' \<mapsto> JObj [''color'' \<mapsto> JStr ''black'', ''padding'' \<mapsto> JNum 8],
      ''primaryStyle'' \<mapsto> JObj [''color'' \<mapsto> JStr ''white''],
      ''focusStyle'' \<mapsto> JObj [''boxShadow'' \<mapsto> JStr ''ring''],
      ''disabledStyle'' \<mapsto> JObj [''opacity'' \<mapsto> JNum 0, ''color'' \<mapsto> JStr ''grey''],
      ''activeStyle'' \<mapsto> JObj [''color'' \<mapsto> JStr ''navy'']]"

definition demoProps :: jsobj where
  "demoProps =
     [''style'' \<mapsto> JObj [''color'' \<mapsto> JStr ''red''],
      ''focusStyle'' \<mapsto> JObj [''padding'' \<mapsto> JNum 2],
      ''preventFocusStyleForTouchAndClick'' \<mapsto> JBool True,
      ''onTouchStart'' \<mapsto> JFun ''touched'',
      ''onTouchEnd'' \<mapsto> JFun ''released'',
      ''onTouchCancel'' \<mapsto> JFun ''cancelled'',
      ''title'' \<mapsto> JStr ''Save'',
      ''disabled'' \<mapsto> JBool False,
      ''primary'' \<mapsto> JBool False]"

definition demoUnionClassNames :: "jsval \<Rightarrow> jsval \<Rightarrow> jsval" where
  "demoUnionClassNames a b = b"

definition demoButton :: button where
  "demoButton = fst (mount Map.empty demoStyle ''.0.1'' demoProps)"

definition demoFocused :: button where
  "demoFocused = fst (onFocus FocusEvent demoButton)"

definition demoPressed :: button where
  "demoPressed = demoButton\<lparr>mouseDownOnButton := True\<rparr>"

definition quietActions :: "action list" where
  "quietActions = [MouseDown \<lparr>button = 2\<rparr>, TouchStart \<lparr>touches = [1, 2]\<rparr>]"

definition interruptedClick :: "action list" where
  "interruptedClick = [MouseDown \<lparr>button = 0\<rparr>, ReceiveProps demoProps, Focus FocusEvent]"

definition restyledProps :: jsobj where
  "restyledProps = demoProps(''focusStyle'' \<mapsto> JObj [''color'' \<mapsto> JStr ''green''])"

definition disabledProps :: jsobj where
  "disabledProps =
     [''disabled'' \<mapsto> JBool True, ''preventFocusStyleForTouchAndClick'' \<mapsto> JBool True]"

definition disabledButton :: button where
  "disabledButton = fst (mount Map.empty demoStyle ''.0.2'' disabledProps)"

definition disabledFocused :: button where
  "disabledFocused = fst (onFocus FocusEvent disabledButton)"



definition placeholderStyle :: jsobj where
  "placeholderStyle =
     [''style'' \<mapsto> JObj [''padding'' \<mapsto> JNum 4],
      ''disabledStyle'' \<mapsto> JObj [''color'' \<mapsto> JStr ''grey'', ''opacity'' \<mapsto> JNum 0]]"

definition placeholderProps :: jsobj where
  "placeholderProps =
     [''disabledStyle'' \<mapsto> JObj [''color'' \<mapsto> JStr ''red''], ''_isDisabled'' \<mapsto> JBool True,
      ''title'' \<mapsto> JStr ''Pick one'']"

section \<open>Merging and the example data\<close>

lemma laterWins_Cons: "laterWins (l # ls) = l ++ laterWins ls"
  by (rule ext) (simp add: map_add_def)

lemma foldl_spread:
  "foldl (\<lambda>target v. target ++ ownProps v) acc vs = acc ++ laterWins (map ownProps vs)"
proof (induction vs arbitrary: acc)
  case Nil
  have "laterWins [] = Map.empty" by (rule ext) simp
  then show ?case by simp
next
  case (Cons v vs)
  then show ?case by (simp add: laterWins_Cons)
qed

lemma spread_laterWins: "spread vs = laterWins (map ownProps vs)"
  by (simp add: spread_def foldl_spread)

lemma buttonStyle_layers: "buttonStyle sty this = spread (spec_layers sty this)"
  by (simp add: buttonStyle_def spec_layers_def variant_def oneTimeFocus_def spread_def Let_def)

lemma buttonStyle_by_branch:
  "buttonStyle sty this =
     spread ([variant sty (props this) ''style'' ''primaryStyle'', get (props this) ''style'']
       @ (case styleBranch this of
            DisabledBranch \<Rightarrow> [variant sty (props this) ''disabledStyle'' ''primaryDisabledStyle'',
                                get (props this) ''disabledStyle'']
          | ActiveBranch \<Rightarrow> [variant sty (props this) ''activeStyle'' ''primaryActiveStyle'',
                              get (props this) ''activeStyle'']
          | FocusBranch \<Rightarrow> [variant sty (props this) ''focusStyle'' ''primaryFocusStyle'',
                             get (props this) ''focusStyle'']
          | PlainBranch \<Rightarrow> []))"
  by (simp add: buttonStyle_def styleBranch_def variant_def spread_def Let_def)

lemma sanitize_style: "sanitizeChildProps p ''style'' = None"
  by (simp add: sanitizeChildProps_def omit_def)

lemma demoButton_fields:
  "props demoButton = demoProps"
  "childProps demoButton = sanitizeChildProps demoProps"
  "active demoButton = False"
  "focused demoButton = False"
  "mouseDownOnButton demoButton = False"
  "preventFocusStyleForTouchAndClick demoButton = JBool True"
  "styleId demoButton = JStr ''style-id-0-1''"
  by (simp_all add: demoButton_def mount_def componentWillMount_def Button_constructor_def
        resolvePrevent_def has_def get_def demoProps_def Let_def)

lemma demoFocused_fields:
  "props demoFocused = demoProps"
  "childProps demoFocused = sanitizeChildProps demoProps"
  "active demoFocused = False"
  "focused demoFocused = True"
  "mouseDownOnButton demoFocused = False"
  "preventFocusStyleForTouchAndClick demoFocused = JBool True"
  by (simp_all add: demoFocused_def onFocus_def demoButton_fields)

lemma demoProps_get:
  "get demoProps ''disabled'' = JBool False"
  "get demoProps ''primary'' = JBool False"
  "get demoProps ''style'' = JObj [''color'' \<mapsto> JStr ''red'']"
  "get demoProps ''focusStyle'' = JObj [''padding'' \<mapsto> JNum 2]"
  "get demoProps ''onTouchStart'' = JFun ''touched''"
  "get demoProps ''onTouchEnd'' = JFun ''released''"
  "get demoProps ''onTouchCancel'' = JFun ''cancelled''"
  by (simp_all add: get_def demoProps_def)

lemma demoStyle_get:
  "get demoStyle ''style'' = JObj [''color'' \<mapsto> JStr ''black'', ''padding'' \<mapsto> JNum 8]"
  "get demoStyle ''focusStyle'' = JObj [''boxShadow'' \<mapsto> JStr ''ring'']"
  "get demoStyle ''disabledStyle'' = JObj [''opacity'' \<mapsto> JNum 0, ''color'' \<mapsto> JStr ''grey'']"
  by (simp_all add: get_def demoStyle_def)

lemma disabledButton_fields:
  "props disabledButton = disabledProps"
  "childProps disabledButton = sanitizeChildProps disabledProps"
  "active disabledButton = False"
  "focused disabledButton = False"
  "mouseDownOnButton disabledButton = False"
  "preventFocusStyleForTouchAndClick disabledButton = JBool True"
  by (simp_all add: disabledButton_def mount_def componentWillMount_def Button_constructor_def
        resolvePrevent_def has_def get_def disabledProps_def Let_def)

lemma disabledProps_get:
  "get disabledProps ''disabled'' = JBool True"
  "get disabledProps ''primary'' = JUndefined"
  "get disabledProps ''style'' = JUndefined"
  "get disabledProps ''disabledStyle'' = JUndefined"
  "get disabledProps ''onTouchStart'' = JUndefined"
  by (simp_all add: get_def disabledProps_def)

section \<open>The inline style of a Button\<close>

text \<open>
  Claim C1. For every Button render, whatever the props and the interaction state
  (\<open>active\<close>, \<open>focused\<close>, \<open>mouseDownOnButton\<close>), the inline style is the layered
  shallow merge of the spec's style composer, later layers winning property by
  property: the variant's base style and the caller's \<open>style\<close>; then, if disabled,
  the variant's disabled style and the caller's \<open>disabledStyle\<close>, whatever \<open>active\<close>
  and \<open>focused\<close> are; else if active, the variant's active style and the caller's
  \<open>activeStyle\<close>; else if the one-time focus test holds, the variant's focus style and
  the caller's \<open>focusStyle\<close>; else nothing more. On an instance whose forwarded props
  carry no \<open>style\<close> key (the sanitizer lists that key), this style is the
  \<open>style\<close> attribute of the rendered button. A disabled
  Button takes the disabled arm; a Button that is not disabled takes exactly one of the
  active, focus and plain arms, the active one whenever it is active.
\<close>

theorem Button_render_layered_style:
  "buttonStyle sty this = laterWins (map ownProps (spec_layers sty this))
   \<and> (childProps this ''style'' = None \<longrightarrow>
        elProps (Button_render sty ucn this) ''style''
          = Some (JObj (laterWins (map ownProps (spec_layers sty this)))))
   \<and> (truthy (get (props this) ''disabled'') \<longrightarrow> styleBranch this = DisabledBranch)
   \<and> (\<not> truthy (get (props this) ''disabled'') \<longrightarrow>
         (styleBranch this = ActiveBranch \<longleftrightarrow> active this)
       \<and> (styleBranch this = FocusBranch \<longleftrightarrow> \<not> active this \<and> oneTimeFocus this)
       \<and> (styleBranch this = PlainBranch \<longleftrightarrow> \<not> active this \<and> \<not> oneTimeFocus this))"
proof -
  have merged: "buttonStyle sty this = laterWins (map ownProps (spec_layers sty this))"
    by (simp add: buttonStyle_layers spread_laterWins)
  have attribute: "childProps this ''style'' = None \<Longrightarrow>
        elProps (Button_render sty ucn this) ''style''
          = Some (JObj (laterWins (map ownProps (spec_layers sty this))))"
    by (simp add: Button_render_def map_add_def merged)
  have off: "truthy (get (props this) ''disabled'') \<Longrightarrow> styleBranch this = DisabledBranch"
    by (simp add: styleBranch_def)
  have on: "\<not> truthy (get (props this) ''disabled'') \<Longrightarrow>
         (styleBranch this = ActiveBranch \<longleftrightarrow> active this)
       \<and> (styleBranch this = FocusBranch \<longleftrightarrow> \<not> active this \<and> oneTimeFocus this)
       \<and> (styleBranch this = PlainBranch \<longleftrightarrow> \<not> active this \<and> \<not> oneTimeFocus this)"
    by (auto simp add: styleBranch_def oneTimeFocus_def)
  from merged attribute off on show ?thesis by blast
qed

theorem Button_render_layered_style_witness:
  "childProps demoFocused ''style'' = None
   \<and> \<not> truthy (get (props demoFocused) ''disabled'')
   \<and> styleBranch demoFocused = FocusBranch
   \<and> elProps (Button_render demoStyle demoUnionClassNames demoFocused) ''style''
       = Some (JObj (laterWins (map ownProps (spec_layers demoStyle demoFocused))))
   \<and> buttonStyle demoStyle demoFocused ''color'' = Some (JStr ''red'')
   \<and> buttonStyle demoStyle demoFocused ''padding'' = Some (JNum 2)
   \<and> buttonStyle demoStyle demoFocused ''boxShadow'' = Some (JStr ''ring'')"
proof -
  have l: "spec_layers demoStyle demoFocused =
     [JObj [''color'' \<mapsto> JStr ''black'', ''padding'' \<mapsto> JNum 8],
      JObj [''color'' \<mapsto> JStr ''red''],
      JObj [''boxShadow'' \<mapsto> JStr ''ring''], JObj [''padding'' \<mapsto> JNum 2]]"
    by (simp add: spec_layers_def variant_def oneTimeFocus_def demoFocused_fields
          demoProps_get demoStyle_get)
  show ?thesis
    using Button_render_layered_style [of demoStyle demoFocused demoUnionClassNames]
    by (simp add: demoFocused_fields l demoProps_get oneTimeFocus_def sanitize_style)
qed

section \<open>The one-time focus style\<close>

lemma truthy_propTypesBool: "propTypesBool v \<Longrightarrow> truthy v \<longleftrightarrow> v = JBool True"
  by (cases v) auto

lemma dispatch_cases:
  "dispatch config sty a this =
     (if list_ex requestsRender (snd (handle config sty a this))
      then \<lparr>after = componentDidUpdate (fst (handle config sty a this)),
            rendered = Some (fst (handle config sty a this)),
            effects = snd (handle config sty a this)\<rparr>
      else \<lparr>after = fst (handle config sty a this), rendered = None,
            effects = snd (handle config sty a this)\<rparr>)"
  by (simp add: dispatch_def split_def Let_def)

lemma dispatch_Focus:
  "dispatch config sty (Focus fe) this =
     \<lparr>after = componentDidUpdate (fst (onFocus fe this)),
      rendered = Some (fst (onFocus fe this)),
      effects = snd (onFocus fe this)\<rparr>"
  by (simp add: dispatch_def onFocus_def)

lemma dispatch_MouseDown:
  "dispatch config sty (MouseDown ev) this =
     \<lparr>after = fst (onMouseDown ev this), rendered = None, effects = snd (onMouseDown ev this)\<rparr>"
  by (simp add: dispatch_def onMouseDown_def callIfProvided_def)

lemma dispatch_keeps_press:
  assumes "rendered (dispatch config sty a this) = None" and "mouseDownOnButton this"
  shows "mouseDownOnButton (after (dispatch config sty a this))"
  using assms
  by (cases a)
     (auto simp add: dispatch_cases componentWillReceiveProps_def updatePseudoClassStyle_def
        onFocus_def onBlur_def onMouseDown_def onTouchStart_def onTouchEnd_def onTouchCancel_def
        Let_def split: if_splits)

lemma run_keeps_press:
  "mouseDownOnButton this \<Longrightarrow>
     \<forall>(b, r) \<in> set (run config sty acts this). rendered r = None \<Longrightarrow>
     mouseDownOnButton (final config sty acts this)"
proof (induction acts arbitrary: this)
  case Nil
  then show ?case by simp
next
  case (Cons a acts)
  from Cons.prems(2) have quiet: "rendered (dispatch config sty a this) = None"
    and rest: "\<forall>(b, r) \<in> set (run config sty acts (after (dispatch config sty a this))).
                 rendered r = None"
    by (simp_all add: Let_def)
  from quiet Cons.prems(1) have "mouseDownOnButton (after (dispatch config sty a this))"
    by (rule dispatch_keeps_press)
  from Cons.IH [OF this rest] show ?case by simp
qed

lemma focus_after_press:
  assumes "mouseDownOnButton this"
  shows "\<exists>snap. rendered (dispatch config sty (Focus fe) this) = Some snap
           \<and> mouseDownOnButton snap \<and> styleBranch snap \<noteq> FocusBranch"
  using assms by (simp add: dispatch_Focus onFocus_def styleBranch_def)

lemma press_sets_flag:
  "button ev = 0 \<and> \<not> truthy (get (props this) ''disabled'') \<Longrightarrow>
     mouseDownOnButton (after (dispatch config sty (MouseDown ev) this))"
  by (simp add: dispatch_MouseDown onMouseDown_def)

lemma demoPressed_dispatch:
  "after (dispatch Map.empty demoStyle (MouseDown \<lparr>button = 0\<rparr>) demoButton) = demoPressed"
  by (simp add: dispatch_MouseDown onMouseDown_def demoPressed_def demoButton_fields demoProps_get)

lemma demoPressed_fields:
  "props demoPressed = demoProps"
  "active demoPressed = False"
  "focused demoPressed = False"
  "mouseDownOnButton demoPressed = True"
  "preventFocusStyleForTouchAndClick demoPressed = JBool True"
  by (simp_all add: demoPressed_def demoButton_fields)

lemma quiet_run:
  "map (rendered \<circ> snd) (run Map.empty demoStyle quietActions demoPressed) = [None, None]"
  "final Map.empty demoStyle quietActions demoPressed = demoPressed"
  by (simp_all add: quietActions_def dispatch_cases onMouseDown_def onTouchStart_def
        callIfProvided_def demoPressed_fields demoProps_get Let_def)

lemma interrupted_run:
  "map (map_option styleBranch \<circ> rendered \<circ> snd)
       (run Map.empty demoStyle interruptedClick demoButton)
     = [None, Some PlainBranch, Some FocusBranch]"
proof -
  have p: "resolvePrevent Map.empty demoProps = JBool True"
    by (simp add: resolvePrevent_def has_def get_def demoProps_def)
  show ?thesis
    by (simp add: interruptedClick_def dispatch_cases onFocus_def onMouseDown_def
          componentWillReceiveProps_def componentDidUpdate_def updatePseudoClassStyle_def
          callIfProvided_def styleBranch_def demoButton_fields demoProps_get p Let_def)
qed

text \<open>
  Claim C2, as amended. For every render of a Button that is not disabled, with
  \<open>preventFocusStyleForTouchAndClick\<close> a boolean or unset as its \<open>propTypes\<close>
  declare, the one-time focus layer is applied if and only if \<open>focused\<close> is true,
  \<open>active\<close> is false, \<open>mouseDownOnButton\<close> is false and
  \<open>preventFocusStyleForTouchAndClick\<close> is \<open>true\<close>; a disabled Button takes the
  disabled arm instead. \<open>mouseDownOnButton\<close> is set by a mouseDown with the primary
  button on a Button that is not disabled, and by nothing else in that handler; every
  render-and-commit cycle clears it. So a focus that follows a mouseDown of that kind
  with no render in between, whatever events come between them, renders without the
  focus layer, while a focus on a Button that is neither disabled nor active, with the
  flag unset and \<open>preventFocusStyleForTouchAndClick\<close> true, renders with it.
\<close>

theorem one_time_focus_when_enabled:
  "(\<not> truthy (get (props this) ''disabled'')
      \<and> propTypesBool (preventFocusStyleForTouchAndClick this) \<longrightarrow>
      (styleBranch this = FocusBranch \<longleftrightarrow>
         focused this \<and> \<not> active this \<and> \<not> mouseDownOnButton this
         \<and> preventFocusStyleForTouchAndClick this = JBool True))
   \<and> (truthy (get (props this) ''disabled'') \<longrightarrow> styleBranch this = DisabledBranch)
   \<and> fst (onMouseDown ev this) =
       (if button ev = 0 \<and> \<not> truthy (get (props this) ''disabled'')
        then this\<lparr>mouseDownOnButton := True\<rparr> else this)
   \<and> (button ev = 0 \<and> \<not> truthy (get (props this) ''disabled'')
        \<and> (\<forall>(b, r) \<in> set (run config sty acts (after (dispatch config sty (MouseDown ev) this))).
              rendered r = None) \<longrightarrow>
        (\<exists>snap. rendered (dispatch config sty (Focus fe)
                   (final config sty acts (after (dispatch config sty (MouseDown ev) this))))
                 = Some snap
           \<and> mouseDownOnButton snap \<and> styleBranch snap \<noteq> FocusBranch))
   \<and> (\<forall>snap. rendered (dispatch config sty a this) = Some snap \<longrightarrow>
         \<not> mouseDownOnButton (after (dispatch config sty a this)))
   \<and> (\<not> truthy (get (props this) ''disabled'') \<and> \<not> active this
        \<and> \<not> mouseDownOnButton this
        \<and> preventFocusStyleForTouchAndClick this = JBool True \<longrightarrow>
        (\<exists>snap. rendered (dispatch config sty (Focus fe) this) = Some snap
           \<and> styleBranch snap = FocusBranch))"
proof -
  have test: "\<not> truthy (get (props this) ''disabled'')
      \<and> propTypesBool (preventFocusStyleForTouchAndClick this) \<longrightarrow>
      (styleBranch this = FocusBranch \<longleftrightarrow>
         focused this \<and> \<not> active this \<and> \<not> mouseDownOnButton this
         \<and> preventFocusStyleForTouchAndClick this = JBool True)"
    by (auto simp add: styleBranch_def truthy_propTypesBool)
  have off: "truthy (get (props this) ''disabled'') \<longrightarrow> styleBranch this = DisabledBranch"
    by (simp add: styleBranch_def)
  have press: "fst (onMouseDown ev this) =
       (if button ev = 0 \<and> \<not> truthy (get (props this) ''disabled'')
        then this\<lparr>mouseDownOnButton := True\<rparr> else this)"
    by (simp add: onMouseDown_def)
  have pointer: "button ev = 0 \<and> \<not> truthy (get (props this) ''disabled'')
        \<and> (\<forall>(b, r) \<in> set (run config sty acts (after (dispatch config sty (MouseDown ev) this))).
              rendered r = None) \<longrightarrow>
        (\<exists>snap. rendered (dispatch config sty (Focus fe)
                   (final config sty acts (after (dispatch config sty (MouseDown ev) this))))
                 = Some snap
           \<and> mouseDownOnButton snap \<and> styleBranch snap \<noteq> FocusBranch)"
    using run_keeps_press [OF press_sets_flag, of ev this config sty acts] focus_after_press
    by blast
  have cleared: "\<forall>snap. rendered (dispatch config sty a this) = Some snap \<longrightarrow>
         \<not> mouseDownOnButton (after (dispatch config sty a this))"
    by (simp add: dispatch_cases componentDidUpdate_def)
  have keyboard: "\<not> truthy (get (props this) ''disabled'') \<and> \<not> active this
        \<and> \<not> mouseDownOnButton this
        \<and> preventFocusStyleForTouchAndClick this = JBool True \<longrightarrow>
        (\<exists>snap. rendered (dispatch config sty (Focus fe) this) = Some snap
           \<and> styleBranch snap = FocusBranch)"
    by (simp add: dispatch_Focus onFocus_def styleBranch_def)
  from test off press pointer cleared keyboard show ?thesis by blast
qed

theorem one_time_focus_when_enabled_witness:
  "\<not> truthy (get (props demoButton) ''disabled'')
   \<and> propTypesBool (preventFocusStyleForTouchAndClick demoButton)
   \<and> button \<lparr>button = 0\<rparr> = 0
   \<and> \<not> active demoButton \<and> \<not> mouseDownOnButton demoButton
   \<and> preventFocusStyleForTouchAndClick demoButton = JBool True
   \<and> styleBranch demoButton = PlainBranch
   \<and> after (dispatch Map.empty demoStyle (MouseDown \<lparr>button = 0\<rparr>) demoButton) = demoPressed
   \<and> map (rendered \<circ> snd) (run Map.empty demoStyle quietActions demoPressed) = [None, None]
   \<and> rendered (dispatch Map.empty demoStyle (Focus FocusEvent)
                 (final Map.empty demoStyle quietActions demoPressed))
       = Some (demoPressed\<lparr>focused := True\<rparr>)
   \<and> mouseDownOnButton (demoPressed\<lparr>focused := True\<rparr>)
   \<and> styleBranch (demoPressed\<lparr>focused := True\<rparr>) = PlainBranch
   \<and> rendered (dispatch Map.empty demoStyle (ReceiveProps demoProps) demoPressed) \<noteq> None
   \<and> \<not> mouseDownOnButton (after (dispatch Map.empty demoStyle (ReceiveProps demoProps) demoPressed))
   \<and> rendered (dispatch Map.empty demoStyle (Focus FocusEvent) demoButton) = Some demoFocused
   \<and> styleBranch demoFocused = FocusBranch"
proof -
  have quiet: "\<forall>(b, r) \<in> set (run Map.empty demoStyle quietActions
                 (after (dispatch Map.empty demoStyle (MouseDown \<lparr>button = 0\<rparr>) demoButton))).
                 rendered r = None"
    by (simp add: demoPressed_dispatch quietActions_def dispatch_cases onMouseDown_def
          onTouchStart_def callIfProvided_def demoPressed_fields demoProps_get Let_def)
  have plain: "styleBranch demoButton = PlainBranch"
    "styleBranch (demoPressed\<lparr>focused := True\<rparr>) = PlainBranch"
    by (simp_all add: styleBranch_def demoButton_fields demoPressed_fields demoProps_get)
  have shown: "styleBranch demoFocused = FocusBranch"
    by (simp add: styleBranch_def demoFocused_fields demoProps_get)
  have renders:
    "rendered (dispatch Map.empty demoStyle (Focus FocusEvent)
                 (final Map.empty demoStyle quietActions demoPressed))
       = Some (demoPressed\<lparr>focused := True\<rparr>)"
    "rendered (dispatch Map.empty demoStyle (Focus FocusEvent) demoButton) = Some demoFocused"
    "rendered (dispatch Map.empty demoStyle (ReceiveProps demoProps) demoPressed) \<noteq> None"
    by (simp_all add: quiet_run dispatch_Focus onFocus_def demoFocused_def dispatch_cases
          componentWillReceiveProps_def Let_def)
  show ?thesis
    using one_time_focus_when_enabled [where this = demoButton and ev = "\<lparr>button = 0\<rparr>" and config = Map.empty
                and sty = demoStyle and fe = FocusEvent and acts = quietActions]
          one_time_focus_when_enabled [where this = demoPressed and config = Map.empty and sty = demoStyle
                and a = "ReceiveProps demoProps"]
          quiet plain shown renders quiet_run demoPressed_dispatch
    by (simp add: demoButton_fields demoProps_get demoPressed_fields)
qed

text \<open>
  The claim as it is written fails in two ways. On a disabled Button:
  \<open>disabledButton\<close> is mounted with \<open>disabled\<close> and
  \<open>preventFocusStyleForTouchAndClick\<close> both true, and a focus event reaches it. At
  the render that follows, \<open>focused\<close> is true, \<open>active\<close> and
  \<open>mouseDownOnButton\<close> are false and \<open>preventFocusStyleForTouchAndClick\<close> is
  \<open>true\<close>, yet \<open>render\<close> takes the disabled arm: the style has the disabled colour
  and nothing of the focus style. The same happens to an enabled Button whose focus
  handler has run and which is given props with \<open>disabled\<close> true before it renders.
  And on a click that a re-render interrupts: the enabled \<open>demoButton\<close> gets a
  mouseDown with the primary button, then new props, which render and clear the flag,
  then the focus, and that last render takes the focus arm although the focus came from
  the pointer.
\<close>

theorem one_time_focus_disabled_counterexample:
  "rendered (dispatch Map.empty demoStyle (Focus FocusEvent) disabledButton) = Some disabledFocused
   \<and> focused disabledFocused \<and> \<not> active disabledFocused
   \<and> \<not> mouseDownOnButton disabledFocused
   \<and> preventFocusStyleForTouchAndClick disabledFocused = JBool True
   \<and> styleBranch disabledFocused = DisabledBranch
   \<and> buttonStyle demoStyle disabledFocused ''boxShadow'' = None
   \<and> buttonStyle demoStyle disabledFocused ''color'' = Some (JStr ''grey'')
   \<and> focused (fst (handle Map.empty demoStyle (ReceiveProps disabledProps) demoFocused))
   \<and> styleBranch (fst (handle Map.empty demoStyle (ReceiveProps disabledProps) demoFocused))
       = DisabledBranch
   \<and> preventFocusStyleForTouchAndClick demoButton = JBool True
   \<and> map (map_option styleBranch \<circ> rendered \<circ> snd)
         (run Map.empty demoStyle interruptedClick demoButton)
       = [None, Some PlainBranch, Some FocusBranch]"
proof -
  have f: "props disabledFocused = disabledProps" "active disabledFocused = False"
    "focused disabledFocused = True" "mouseDownOnButton disabledFocused = False"
    "preventFocusStyleForTouchAndClick disabledFocused = JBool True"
    by (simp_all add: disabledFocused_def onFocus_def disabledButton_fields)
  have r: "rendered (dispatch Map.empty demoStyle (Focus FocusEvent) disabledButton)
             = Some disabledFocused"
    by (simp add: dispatch_Focus disabledFocused_def)
  have b: "styleBranch disabledFocused = DisabledBranch"
    by (simp add: styleBranch_def f disabledProps_get)
  have s: "buttonStyle demoStyle disabledFocused ''boxShadow'' = None"
    "buttonStyle demoStyle disabledFocused ''color'' = Some (JStr ''grey'')"
    by (simp_all add: buttonStyle_by_branch b variant_def spread_def f disabledProps_get
          demoStyle_get)
  have l: "focused (fst (handle Map.empty demoStyle (ReceiveProps disabledProps) demoFocused))"
    "styleBranch (fst (handle Map.empty demoStyle (ReceiveProps disabledProps) demoFocused))
       = DisabledBranch"
    by (simp_all add: componentWillReceiveProps_def styleBranch_def demoFocused_fields
          disabledProps_get Let_def)
  from f r b s l interrupted_run demoButton_fields(6) show ?thesis by simp
qed

section \<open>The flags after a render\<close>

lemma handle_focused:
  "\<not> focused this \<Longrightarrow> \<forall>fe. a \<noteq> Focus fe \<Longrightarrow> \<not> focused (fst (handle config sty a this))"
  by (cases a)
     (simp_all add: componentWillReceiveProps_def onBlur_def onMouseDown_def onTouchStart_def
        onTouchEnd_def onTouchCancel_def Let_def)

lemma dispatch_keeps_unfocused:
  assumes "\<not> focused this"
  shows "\<not> focused (after (dispatch config sty a this))"
proof (cases "\<exists>fe. a = Focus fe")
  case True
  then show ?thesis by (auto simp add: dispatch_Focus componentDidUpdate_def)
next
  case False
  with assms have "\<not> focused (fst (handle config sty a this))"
    by (simp add: handle_focused)
  then show ?thesis by (simp add: dispatch_cases componentDidUpdate_def)
qed

lemma dispatch_focus_branch:
  assumes "\<not> focused this" and "rendered (dispatch config sty a this) = Some snap"
    and "styleBranch snap = FocusBranch"
  shows "\<exists>fe. a = Focus fe"
proof (rule ccontr)
  assume "\<not> (\<exists>fe. a = Focus fe)"
  with assms(1) have "\<not> focused (fst (handle config sty a this))"
    by (simp add: handle_focused)
  moreover from assms(2) have "snap = fst (handle config sty a this)"
    by (simp add: dispatch_cases split: if_splits)
  ultimately have "\<not> focused snap" by simp
  with assms(3) show False by (simp add: styleBranch_def split: if_splits)
qed

lemma run_focus_branch:
  "\<not> focused this \<Longrightarrow> (a, r) \<in> set (run config sty acts this) \<Longrightarrow>
     rendered r = Some snap \<Longrightarrow> styleBranch snap = FocusBranch \<Longrightarrow> \<exists>fe. a = Focus fe"
proof (induction acts arbitrary: this)
  case Nil
  then show ?case by simp
next
  case (Cons b bs)
  from Cons.prems(2) consider
    (head) "a = b" "r = dispatch config sty b this"
    | (tail) "(a, r) \<in> set (run config sty bs (after (dispatch config sty b this)))"
    by (auto simp add: Let_def)
  then show ?case
  proof cases
    case head
    with Cons.prems show ?thesis by (auto dest: dispatch_focus_branch)
  next
    case tail
    from Cons.prems(1) have "\<not> focused (after (dispatch config sty b this))"
      by (rule dispatch_keeps_unfocused)
    from Cons.IH [OF this tail Cons.prems(3) Cons.prems(4)] show ?thesis .
  qed
qed

text \<open>
  Claim C3. After every completed render-and-commit cycle the flags \<open>focused\<close> and
  \<open>mouseDownOnButton\<close> are false: \<open>componentDidUpdate\<close> resets both, it runs on the
  instance that was rendered after every action that leads to a render, and a freshly
  mounted instance has both false. A focus event leads to exactly one render, with
  \<open>focused\<close> set. So from an instance whose \<open>focused\<close> is false (a mounted one, or one
  after any commit), over any sequence of prop changes and events, a render that shows
  the one-time focus style is the render of a focus event: no re-render for another
  reason shows it.
\<close>

theorem flags_reset_after_commit:
  "focused (componentDidUpdate this) = False
   \<and> mouseDownOnButton (componentDidUpdate this) = False
   \<and> focused (fst (mount config sty rootNodeID p)) = False
   \<and> mouseDownOnButton (fst (mount config sty rootNodeID p)) = False
   \<and> (\<forall>snap. rendered (dispatch config sty a this) = Some snap \<longrightarrow>
         after (dispatch config sty a this) = componentDidUpdate snap)
   \<and> rendered (dispatch config sty (Focus fe) this) = Some (this\<lparr>focused := True\<rparr>)
   \<and> (\<not> focused this \<longrightarrow>
        (\<forall>(b, r) \<in> set (run config sty acts this). \<forall>snap.
           rendered r = Some snap \<and> styleBranch snap = FocusBranch \<longrightarrow> (\<exists>ev. b = Focus ev)))"
proof -
  have reset: "focused (componentDidUpdate this) = False
     \<and> mouseDownOnButton (componentDidUpdate this) = False"
    by (simp add: componentDidUpdate_def)
  have fresh: "focused (fst (mount config sty rootNodeID p)) = False
     \<and> mouseDownOnButton (fst (mount config sty rootNodeID p)) = False"
    by (simp add: mount_def componentWillMount_def Button_constructor_def Let_def)
  have commit: "\<forall>snap. rendered (dispatch config sty a this) = Some snap \<longrightarrow>
         after (dispatch config sty a this) = componentDidUpdate snap"
    by (simp add: dispatch_cases)
  have once: "rendered (dispatch config sty (Focus fe) this) = Some (this\<lparr>focused := True\<rparr>)"
    by (simp add: dispatch_Focus onFocus_def)
  have later: "\<not> focused this \<longrightarrow>
        (\<forall>(b, r) \<in> set (run config sty acts this). \<forall>snap.
           rendered r = Some snap \<and> styleBranch snap = FocusBranch \<longrightarrow> (\<exists>ev. b = Focus ev))"
    using run_focus_branch by blast
  from reset fresh commit once later show ?thesis by blast
qed

theorem flags_reset_after_commit_witness:
  "\<not> focused demoButton
   \<and> rendered (dispatch Map.empty demoStyle (Focus FocusEvent) demoButton)
       = Some (demoButton\<lparr>focused := True\<rparr>)
   \<and> after (dispatch Map.empty demoStyle (Focus FocusEvent) demoButton)
       = componentDidUpdate (demoButton\<lparr>focused := True\<rparr>)
   \<and> focused (componentDidUpdate (demoButton\<lparr>focused := True\<rparr>)) = False
   \<and> map (\<lambda>(b, r). map_option styleBranch (rendered r))
       (run Map.empty demoStyle
          [Focus FocusEvent, ReceiveProps demoProps, TouchStart \<lparr>touches = [1]\<rparr>] demoButton)
     = [Some FocusBranch, Some PlainBranch, Some ActiveBranch]"
proof -
  have p: "resolvePrevent Map.empty demoProps = JBool True"
    by (simp add: resolvePrevent_def has_def get_def demoProps_def)
  have t: "map (\<lambda>(b, r). map_option styleBranch (rendered r))
       (run Map.empty demoStyle
          [Focus FocusEvent, ReceiveProps demoProps, TouchStart \<lparr>touches = [1]\<rparr>] demoButton)
     = [Some FocusBranch, Some PlainBranch, Some ActiveBranch]"
    by (simp add: dispatch_cases onFocus_def componentWillReceiveProps_def onTouchStart_def
          componentDidUpdate_def updatePseudoClassStyle_def callIfProvided_def styleBranch_def
          demoButton_fields demoProps_get p Let_def)
  show ?thesis
    using flags_reset_after_commit
            [where this = demoButton and config = Map.empty and sty = demoStyle
               and a = "Focus FocusEvent" and fe = FocusEvent] t
    by (simp add: demoButton_fields componentDidUpdate_def)
qed

section \<open>Touch events\<close>

text \<open>
  Claim C4. On every touchStart, \<open>active\<close> is set to true if and only if the Button
  is not disabled and the event carries exactly one touch point; otherwise the instance
  is left as it was. The caller's \<open>onTouchStart\<close>, if provided, is called with the
  event in every case, after the state handling.
\<close>

theorem onTouchStart_sets_active:
  "fst (onTouchStart ev this) =
     (if \<not> truthy (get (props this) ''disabled'') \<and> length (touches ev) = 1
      then this\<lparr>active := True\<rparr> else this)
   \<and> snd (onTouchStart ev this) =
       (if \<not> truthy (get (props this) ''disabled'') \<and> length (touches ev) = 1
        then [SetState (Active True)] else [])
       @ (if truthy (get (props this) ''onTouchStart'')
          then [Invoke (get (props this) ''onTouchStart'') (OfTouch ev)] else [])
   \<and> (SetState (Active True) \<in> set (snd (onTouchStart ev this)) \<longleftrightarrow>
        \<not> truthy (get (props this) ''disabled'') \<and> length (touches ev) = 1)"
  by (simp add: onTouchStart_def callIfProvided_def)

theorem onTouchStart_sets_active_witness:
  "fst (onTouchStart \<lparr>touches = [7]\<rparr> demoButton) = demoButton\<lparr>active := True\<rparr>
   \<and> snd (onTouchStart \<lparr>touches = [7]\<rparr> demoButton)
       = [SetState (Active True), Invoke (JFun ''touched'') (OfTouch \<lparr>touches = [7]\<rparr>)]
   \<and> fst (onTouchStart \<lparr>touches = [7, 8]\<rparr> demoButton) = demoButton
   \<and> snd (onTouchStart \<lparr>touches = [7, 8]\<rparr> demoButton)
       = [Invoke (JFun ''touched'') (OfTouch \<lparr>touches = [7, 8]\<rparr>)]
   \<and> fst (onTouchStart \<lparr>touches = [7]\<rparr> disabledButton) = disabledButton
   \<and> snd (onTouchStart \<lparr>touches = [7]\<rparr> disabledButton) = []"
  using onTouchStart_sets_active [of "\<lparr>touches = [7]\<rparr>" demoButton]
    onTouchStart_sets_active [of "\<lparr>touches = [7, 8]\<rparr>" demoButton]
    onTouchStart_sets_active [of "\<lparr>touches = [7]\<rparr>" disabledButton]
  by (simp add: demoButton_fields demoProps_get disabledButton_fields disabledProps_get)

text \<open>
  Claim C5. On every touchEnd and on every touchCancel the handler sets \<open>active\<close> to
  false, whatever the state and the event, and then calls the caller's \<open>onTouchEnd\<close>
  if it is provided: the two handlers do the same. What the touchCancel handler does
  does not depend on the caller's \<open>onTouchCancel\<close>, and unless that is the very value
  given as \<open>onTouchEnd\<close> it is not called.
\<close>

theorem onTouchEnd_onTouchCancel_same_callback:
  "onTouchEnd ev this =
     (this\<lparr>active := False\<rparr>,
      SetState (Active False)
      # (if truthy (get (props this) ''onTouchEnd'')
         then [Invoke (get (props this) ''onTouchEnd'') (OfTouch ev)] else []))
   \<and> onTouchCancel ev this = onTouchEnd ev this
   \<and> snd (onTouchCancel ev (this\<lparr>props := (props this)(''onTouchCancel'' := v)\<rparr>))
       = snd (onTouchCancel ev this)
   \<and> (get (props this) ''onTouchCancel'' \<noteq> get (props this) ''onTouchEnd'' \<longrightarrow>
        (\<forall>e. Invoke (get (props this) ''onTouchCancel'') e \<notin> set (snd (onTouchCancel ev this))))"
  by (simp add: onTouchEnd_def onTouchCancel_def callIfProvided_def get_def)

theorem onTouchEnd_onTouchCancel_same_callback_witness:
  "get (props demoButton) ''onTouchCancel'' \<noteq> get (props demoButton) ''onTouchEnd''
   \<and> onTouchCancel \<lparr>touches = []\<rparr> (demoButton\<lparr>active := True\<rparr>)
       = (demoButton\<lparr>active := False\<rparr>,
          [SetState (Active False), Invoke (JFun ''released'') (OfTouch \<lparr>touches = []\<rparr>)])
   \<and> Invoke (JFun ''cancelled'') (OfTouch \<lparr>touches = []\<rparr>)
       \<notin> set (snd (onTouchCancel \<lparr>touches = []\<rparr> (demoButton\<lparr>active := True\<rparr>)))"
  using onTouchEnd_onTouchCancel_same_callback
          [of "\<lparr>touches = []\<rparr>" "demoButton\<lparr>active := True\<rparr>"]
  by (simp add: demoButton_fields demoProps_get)

section \<open>The style registry\<close>
















section \<open>The injected pseudo-class rules\<close>

text \<open>
  Claim C7. Every call of \<open>updatePseudoClassStyle\<close> hands \<open>injectStyles\<close> exactly
  four rule sets, all under the given style-id and in this order: hover, active, hover
  with the disabled flag, and focus. Each style is the variant's style (the primary one
  if \<open>primary\<close>, the default one otherwise) merged with the caller's override of the
  same name, the override winning; but when \<open>preventFocusStyleForTouchAndClick\<close> is
  true the focus rule is \<open>{outline: 0}\<close> instead.
\<close>

theorem updatePseudoClassStyle_four_rules:
  "updatePseudoClassStyle sty sid p prevent =
     [InjectStyles
       [\<lparr>id' = sid,
         style = laterWins [ownProps (variant sty p ''hoverStyle'' ''primaryHoverStyle''),
                            ownProps (get p ''hoverStyle'')],
         pseudoClass = ''hover'', disabled = None\<rparr>,
        \<lparr>id' = sid,
         style = laterWins [ownProps (variant sty p ''activeStyle'' ''primaryActiveStyle''),
                            ownProps (get p ''activeStyle'')],
         pseudoClass = ''active'', disabled = None\<rparr>,
        \<lparr>id' = sid,
         style = laterWins [ownProps (variant sty p ''disabledHoverStyle''
                                        ''primaryDisabledHoverStyle''),
                            ownProps (get p ''disabledHoverStyle'')],
         pseudoClass = ''hover'', disabled = Some True\<rparr>,
        \<lparr>id' = sid,
         style = (if truthy prevent then [''outline'' \<mapsto> JNum 0]
                  else laterWins [ownProps (variant sty p ''focusStyle'' ''primaryFocusStyle''),
                                  ownProps (get p ''focusStyle'')]),
         pseudoClass = ''focus'', disabled = None\<rparr>]]"
proof -
  have two: "\<And>a b. spread [a, b] = laterWins [ownProps a, ownProps b]"
    by (simp add: spread_laterWins)
  show ?thesis
    by (simp add: updatePseudoClassStyle_def pseudoClassStyles_def variant_def two Let_def)
qed

lemma get_other: "k \<noteq> k' \<Longrightarrow> get (p(k' := v)) k = get p k"
  by (simp add: get_def)

lemma resolvePrevent_unaffected:
  "resolvePrevent config (p(''focusStyle'' := v)) = resolvePrevent config p"
  by (simp add: resolvePrevent_def has_def get_def)

lemma sanitize_unaffected: "sanitizeChildProps (p(''focusStyle'' := v)) = sanitizeChildProps p"
  by (rule ext) (simp add: sanitizeChildProps_def omit_def)

lemma restyled_get:
  "get restyledProps ''disabled'' = JBool False"
  "get restyledProps ''primary'' = JBool False"
  "get restyledProps ''style'' = JObj [''color'' \<mapsto> JStr ''red'']"
  "get restyledProps ''focusStyle'' = JObj [''color'' \<mapsto> JStr ''green'']"
  by (simp_all add: get_def restyledProps_def demoProps_def)

text \<open>
  Claim C10. When \<open>preventFocusStyleForTouchAndClick\<close> is true, the focus rule that
  \<open>updatePseudoClassStyle\<close> hands to \<open>injectStyles\<close> is exactly \<open>{outline: 0}\<close>,
  at the mount and on new props alike, and the whole call is the same whatever the
  caller's \<open>focusStyle\<close> and the table's two focus styles are: none of the four
  rules depends on them, and neither does anything else \<open>componentWillReceiveProps\<close>
  does. The caller's \<open>focusStyle\<close> does not change which arm \<open>render\<close> takes, and
  outside the focus arm the rendered element is the same with and without it; in the
  focus arm it is the last layer of the inline style.
\<close>

theorem prevented_focus_rule_outline_only:
  "(truthy prevent \<longrightarrow>
     updatePseudoClassStyle sty sid p prevent =
       [InjectStyles
         [\<lparr>id' = sid,
           style = laterWins [ownProps (variant sty p ''hoverStyle'' ''primaryHoverStyle''),
                              ownProps (get p ''hoverStyle'')],
           pseudoClass = ''hover'', disabled = None\<rparr>,
          \<lparr>id' = sid,
           style = laterWins [ownProps (variant sty p ''activeStyle'' ''primaryActiveStyle''),
                              ownProps (get p ''activeStyle'')],
           pseudoClass = ''active'', disabled = None\<rparr>,
          \<lparr>id' = sid,
           style = laterWins [ownProps (variant sty p ''disabledHoverStyle''
                                          ''primaryDisabledHoverStyle''),
                              ownProps (get p ''disabledHoverStyle'')],
           pseudoClass = ''hover'', disabled = Some True\<rparr>,
          \<lparr>id' = sid, style = [''outline'' \<mapsto> JNum 0], pseudoClass = ''focus'',
            disabled = None\<rparr>]]
     \<and> filter (\<lambda>r. pseudoClass r = ''focus'')
         (injectedRules (updatePseudoClassStyle sty sid p prevent))
       = [\<lparr>id' = sid, style = [''outline'' \<mapsto> JNum 0], pseudoClass = ''focus'',
           disabled = None\<rparr>]
     \<and> updatePseudoClassStyle (sty(''focusStyle'' := a, ''primaryFocusStyle'' := b)) sid
         (p(''focusStyle'' := v)) prevent
       = updatePseudoClassStyle sty sid p prevent)
     \<and> (truthy (preventFocusStyleForTouchAndClick this) \<longrightarrow>
          filter (\<lambda>r. pseudoClass r = ''focus'')
            (injectedRules (snd (componentWillMount sty rootNodeID this)))
          = [\<lparr>id' = styleId (fst (componentWillMount sty rootNodeID this)),
              style = [''outline'' \<mapsto> JNum 0], pseudoClass = ''focus'', disabled = None\<rparr>])
     \<and> (truthy (resolvePrevent config p) \<longrightarrow>
          filter (\<lambda>r. pseudoClass r = ''focus'')
            (injectedRules (snd (componentWillReceiveProps config sty p this)))
          = [\<lparr>id' = styleId this, style = [''outline'' \<mapsto> JNum 0], pseudoClass = ''focus'',
              disabled = None\<rparr>]
          \<and> componentWillReceiveProps config sty (p(''focusStyle'' := v)) this
              = componentWillReceiveProps config sty p this)
     \<and> styleBranch (this\<lparr>props := (props this)(''focusStyle'' := v)\<rparr>) = styleBranch this
     \<and> (styleBranch this \<noteq> FocusBranch \<longrightarrow>
          Button_render sty ucn (this\<lparr>props := (props this)(''focusStyle'' := v)\<rparr>)
            = Button_render sty ucn this)
     \<and> (styleBranch this = FocusBranch \<longrightarrow>
          buttonStyle sty this =
            laterWins (map ownProps
              [variant sty (props this) ''style'' ''primaryStyle'', get (props this) ''style'',
               variant sty (props this) ''focusStyle'' ''primaryFocusStyle'',
               get (props this) ''focusStyle'']))"
proof -
  have two: "\<And>a b. spread [a, b] = laterWins [ownProps a, ownProps b]"
    by (simp add: spread_laterWins)
  have rules: "truthy prevent \<Longrightarrow> updatePseudoClassStyle sty sid p prevent =
       [InjectStyles
         [\<lparr>id' = sid,
           style = laterWins [ownProps (variant sty p ''hoverStyle'' ''primaryHoverStyle''),
                              ownProps (get p ''hoverStyle'')],
           pseudoClass = ''hover'', disabled = None\<rparr>,
          \<lparr>id' = sid,
           style = laterWins [ownProps (variant sty p ''activeStyle'' ''primaryActiveStyle''),
                              ownProps (get p ''activeStyle'')],
           pseudoClass = ''active'', disabled = None\<rparr>,
          \<lparr>id' = sid,
           style = laterWins [ownProps (variant sty p ''disabledHoverStyle''
                                          ''primaryDisabledHoverStyle''),
                              ownProps (get p ''disabledHoverStyle'')],
           pseudoClass = ''hover'', disabled = Some True\<rparr>,
          \<lparr>id' = sid, style = [''outline'' \<mapsto> JNum 0], pseudoClass = ''focus'',
            disabled = None\<rparr>]]"
    by (simp add: updatePseudoClassStyle_def pseudoClassStyles_def variant_def two Let_def)
  have focus: "\<And>sid p. truthy prevent \<Longrightarrow> filter (\<lambda>r. pseudoClass r = ''focus'')
         (injectedRules (updatePseudoClassStyle sty sid p prevent))
       = [\<lparr>id' = sid, style = [''outline'' \<mapsto> JNum 0], pseudoClass = ''focus'',
           disabled = None\<rparr>]"
    by (simp add: injectedRules_def updatePseudoClassStyle_def pseudoClassStyles_def Let_def)
  have same: "truthy prevent \<Longrightarrow>
       updatePseudoClassStyle (sty(''focusStyle'' := a, ''primaryFocusStyle'' := b)) sid
         (p(''focusStyle'' := v)) prevent
       = updatePseudoClassStyle sty sid p prevent"
    by (simp add: updatePseudoClassStyle_def pseudoClassStyles_def get_other Let_def)
  have mounted: "truthy (preventFocusStyleForTouchAndClick this) \<Longrightarrow>
          filter (\<lambda>r. pseudoClass r = ''focus'')
            (injectedRules (snd (componentWillMount sty rootNodeID this)))
          = [\<lparr>id' = styleId (fst (componentWillMount sty rootNodeID this)),
              style = [''outline'' \<mapsto> JNum 0], pseudoClass = ''focus'', disabled = None\<rparr>]"
    by (simp add: componentWillMount_def injectedRules_def updatePseudoClassStyle_def
          pseudoClassStyles_def Let_def)
  have received: "truthy (resolvePrevent config p) \<Longrightarrow>
          filter (\<lambda>r. pseudoClass r = ''focus'')
            (injectedRules (snd (componentWillReceiveProps config sty p this)))
          = [\<lparr>id' = styleId this, style = [''outline'' \<mapsto> JNum 0], pseudoClass = ''focus'',
              disabled = None\<rparr>]
          \<and> componentWillReceiveProps config sty (p(''focusStyle'' := v)) this
              = componentWillReceiveProps config sty p this"
    by (simp add: componentWillReceiveProps_def injectedRules_def updatePseudoClassStyle_def
          pseudoClassStyles_def resolvePrevent_unaffected sanitize_unaffected get_other Let_def)
  have branch: "styleBranch (this\<lparr>props := (props this)(''focusStyle'' := v)\<rparr>) = styleBranch this"
    by (simp add: styleBranch_def get_other)
  have inline: "styleBranch this \<noteq> FocusBranch \<Longrightarrow>
          Button_render sty ucn (this\<lparr>props := (props this)(''focusStyle'' := v)\<rparr>)
            = Button_render sty ucn this"
    using branch
    by (cases "styleBranch this")
       (simp_all add: Button_render_def buttonStyle_by_branch variant_def get_other)
  have shown: "styleBranch this = FocusBranch \<Longrightarrow>
          buttonStyle sty this =
            laterWins (map ownProps
              [variant sty (props this) ''style'' ''primaryStyle'', get (props this) ''style'',
               variant sty (props this) ''focusStyle'' ''primaryFocusStyle'',
               get (props this) ''focusStyle''])"
    by (simp add: buttonStyle_by_branch spread_laterWins)
  from rules focus same mounted received branch inline shown show ?thesis by blast
qed

theorem prevented_focus_rule_outline_only_witness:
  "truthy (JBool True)
   \<and> truthy (preventFocusStyleForTouchAndClick (Button_constructor Map.empty demoProps))
   \<and> updatePseudoClassStyle demoStyle (JStr ''style-id-0-1'') restyledProps (JBool True)
       = updatePseudoClassStyle demoStyle (JStr ''style-id-0-1'') demoProps (JBool True)
   \<and> filter (\<lambda>r. pseudoClass r = ''focus'')
       (injectedRules (updatePseudoClassStyle demoStyle (JStr ''style-id-0-1'') restyledProps
          (JBool True)))
       = [\<lparr>id' = JStr ''style-id-0-1'', style = [''outline'' \<mapsto> JNum 0],
           pseudoClass = ''focus'', disabled = None\<rparr>]
   \<and> filter (\<lambda>r. pseudoClass r = ''focus'')
       (injectedRules (snd (mount Map.empty demoStyle ''.0.1'' demoProps)))
       = [\<lparr>id' = JStr ''style-id-0-1'', style = [''outline'' \<mapsto> JNum 0],
           pseudoClass = ''focus'', disabled = None\<rparr>]
   \<and> styleBranch demoButton = PlainBranch
   \<and> Button_render demoStyle demoUnionClassNames (demoButton\<lparr>props := restyledProps\<rparr>)
       = Button_render demoStyle demoUnionClassNames demoButton
   \<and> styleBranch demoFocused = FocusBranch
   \<and> buttonStyle demoStyle demoFocused ''color'' = Some (JStr ''red'')
   \<and> buttonStyle demoStyle (demoFocused\<lparr>props := restyledProps\<rparr>) ''color''
       = Some (JStr ''green'')"
proof -
  have t: "truthy (preventFocusStyleForTouchAndClick (Button_constructor Map.empty demoProps))"
    by (simp add: Button_constructor_def resolvePrevent_def has_def get_def demoProps_def)
  have i: "styleId (fst (componentWillMount demoStyle ''.0.1''
                          (Button_constructor Map.empty demoProps))) = JStr ''style-id-0-1''"
    using demoButton_fields(7) by (simp add: demoButton_def mount_def)
  have r: "demoProps(''focusStyle'' := Some (JObj [''color'' \<mapsto> JStr ''green''])) = restyledProps"
    by (simp add: restyledProps_def)
  have b: "styleBranch demoButton = PlainBranch" "styleBranch demoFocused = FocusBranch"
    "styleBranch (demoFocused\<lparr>props := restyledProps\<rparr>) = FocusBranch"
    by (simp_all add: styleBranch_def demoButton_fields demoFocused_fields demoProps_get
          restyled_get)
  have u: "demoStyle(''focusStyle'' := demoStyle ''focusStyle'',
                     ''primaryFocusStyle'' := demoStyle ''primaryFocusStyle'') = demoStyle"
    by simp
  show ?thesis
    using prevented_focus_rule_outline_only [where prevent = "JBool True" and sty = demoStyle
                 and sid = "JStr ''style-id-0-1''" and p = demoProps
                 and a = "demoStyle ''focusStyle''" and b = "demoStyle ''primaryFocusStyle''"
                 and v = "Some (JObj [''color'' \<mapsto> JStr ''green''])"
                 and this = "Button_constructor Map.empty demoProps" and rootNodeID = "''.0.1''"]
          prevented_focus_rule_outline_only [where prevent = "JBool True" and sty = demoStyle
                 and sid = "JStr ''style-id-0-1''" and p = restyledProps]
          prevented_focus_rule_outline_only [where sty = demoStyle and this = demoButton and ucn = demoUnionClassNames
                 and v = "Some (JObj [''color'' \<mapsto> JStr ''green''])"]
          prevented_focus_rule_outline_only [where sty = demoStyle and this = demoFocused]
          prevented_focus_rule_outline_only [where sty = demoStyle and this = "demoFocused\<lparr>props := restyledProps\<rparr>"]
          t i b
    by (simp add: r u mount_def demoButton_fields demoFocused_fields variant_def demoProps_get
          restyled_get demoStyle_get)
qed

section \<open>The style of a Placeholder\<close>

text \<open>
  Claim C8. For every Placeholder render the computed style is the default style
  merged with the caller's \<open>style\<close> and, when \<open>_isDisabled\<close> is true, merged further
  with the default \<open>disabledStyle\<close> and then the caller's \<open>disabledStyle\<close>, later
  layers winning. On an instance whose forwarded props carry no \<open>style\<close> key (the
  sanitizer lists that key) it is the \<open>style\<close> attribute of the rendered
  \<open>div\<close>. With \<open>disabledStyle\<close> equal to
  \<open>{color: 'red'}\<close> and \<open>_isDisabled\<close> true the style has \<open>color: 'red'\<close>,
  whatever the defaults say.
\<close>

theorem Placeholder_render_style:
  "Placeholder_computedStyle sty p =
     laterWins (map ownProps
       ([get sty ''style'', get p ''style'']
        @ (if truthy (get p ''_isDisabled'')
           then [get sty ''disabledStyle'', get p ''disabledStyle''] else [])))
   \<and> (childProps this ''style'' = None \<longrightarrow>
        elProps (Placeholder_render sty this) ''style''
          = Some (JObj (Placeholder_computedStyle sty (props this))))
   \<and> (truthy (get p ''_isDisabled'')
        \<and> get p ''disabledStyle'' = JObj [''color'' \<mapsto> JStr ''red''] \<longrightarrow>
        Placeholder_computedStyle sty p ''color'' = Some (JStr ''red''))"
proof -
  have merged: "Placeholder_computedStyle sty p =
     laterWins (map ownProps
       ([get sty ''style'', get p ''style'']
        @ (if truthy (get p ''_isDisabled'')
           then [get sty ''disabledStyle'', get p ''disabledStyle''] else [])))"
    unfolding spread_laterWins [symmetric]
    by (simp add: Placeholder_computedStyle_def spread_def Let_def)
  have attribute: "childProps this ''style'' = None \<Longrightarrow>
        elProps (Placeholder_render sty this) ''style''
          = Some (JObj (Placeholder_computedStyle sty (props this)))"
    by (simp add: Placeholder_render_def map_add_def)
  have red: "truthy (get p ''_isDisabled'')
        \<and> get p ''disabledStyle'' = JObj [''color'' \<mapsto> JStr ''red''] \<Longrightarrow>
        Placeholder_computedStyle sty p ''color'' = Some (JStr ''red'')"
    by (simp add: Placeholder_computedStyle_def spread_def Let_def)
  from merged attribute red show ?thesis by blast
qed

theorem Placeholder_render_style_witness:
  "truthy (get placeholderProps ''_isDisabled'')
   \<and> get placeholderProps ''disabledStyle'' = JObj [''color'' \<mapsto> JStr ''red'']
   \<and> childProps (Placeholder_constructor placeholderProps) ''style'' = None
   \<and> Placeholder_computedStyle placeholderStyle placeholderProps ''color'' = Some (JStr ''red'')
   \<and> elProps (Placeholder_render placeholderStyle (Placeholder_constructor placeholderProps))
        ''style''
       = Some (JObj (Placeholder_computedStyle placeholderStyle placeholderProps))"
proof -
  have g: "get placeholderProps ''_isDisabled'' = JBool True"
    "get placeholderProps ''disabledStyle'' = JObj [''color'' \<mapsto> JStr ''red'']"
    by (simp_all add: get_def placeholderProps_def)
  show ?thesis
    using Placeholder_render_style
            [of placeholderStyle placeholderProps "Placeholder_constructor placeholderProps"]
    by (simp add: g Placeholder_constructor_def Placeholder_sanitizeChildProps_def omit_def)
qed

section \<open>The forwarded props\<close>

text \<open>
  Claim C9, as amended. For both components the props forwarded to the native element
  are the caller's props with a fixed list of keys removed, and they are computed anew
  from the new props whenever new props arrive. The Button's list holds every
  style-related key (\<open>className\<close>, \<open>style\<close> and the five per-state styles), the flag
  \<open>primary\<close> and the six handlers the Button intercepts; the Placeholder's list holds
  \<open>style\<close>, \<open>disabledStyle\<close> and the flag \<open>_isDisabled\<close>. A listed key never
  reaches the forwarded props. The Button's \<open>disabled\<close> flag is not on the list: it
  is forwarded to the native button as the caller gave it, and so is every other key
  that is not listed (nothing is said here of
  \<open>preventFocusStyleForTouchAndClick\<close>).
\<close>

theorem sanitizeChildProps_denylist:
  "childProps (Button_constructor config p) = sanitizeChildProps p
   \<and> childProps (fst (componentWillReceiveProps config sty p this)) = sanitizeChildProps p
   \<and> childProps (Placeholder_constructor p) = Placeholder_sanitizeChildProps p
   \<and> childProps (fst (Placeholder_componentWillReceiveProps p ph))
       = Placeholder_sanitizeChildProps p
   \<and> (k \<in> set [''className'', ''style'', ''hoverStyle'', ''focusStyle'', ''activeStyle'',
                 ''disabledStyle'', ''disabledHoverStyle'', ''primary'', ''onTouchStart'',
                 ''onTouchEnd'', ''onTouchCancel'', ''onMouseDown'', ''onFocus'', ''onBlur'']
        \<longrightarrow> sanitizeChildProps p k = None)
   \<and> (k \<notin> set [''className'', ''style'', ''hoverStyle'', ''focusStyle'', ''activeStyle'',
                 ''disabledStyle'', ''disabledHoverStyle'', ''primary'', ''onTouchStart'',
                 ''onTouchEnd'', ''onTouchCancel'', ''onMouseDown'', ''onFocus'', ''onBlur'']
        \<and> k \<noteq> ''preventFocusStyleForTouchAndClick''
        \<longrightarrow> sanitizeChildProps p k = p k
            \<and> elProps (Button_render sty ucn (Button_constructor config p)) k = p k)
   \<and> sanitizeChildProps p ''disabled'' = p ''disabled''
   \<and> (k \<in> set [''style'', ''disabledStyle'', ''_isDisabled'']
        \<longrightarrow> Placeholder_sanitizeChildProps p k = None)
   \<and> (k \<notin> set [''style'', ''disabledStyle'', ''_isDisabled'']
        \<longrightarrow> Placeholder_sanitizeChildProps p k = p k
            \<and> elProps (Placeholder_render pst (Placeholder_constructor p)) k = p k)"
proof -
  have made: "childProps (Button_constructor config p) = sanitizeChildProps p"
    by (simp add: Button_constructor_def)
  have remade: "childProps (fst (componentWillReceiveProps config sty p this))
                  = sanitizeChildProps p"
    by (simp add: componentWillReceiveProps_def Let_def)
  have made': "childProps (Placeholder_constructor p) = Placeholder_sanitizeChildProps p"
    by (simp add: Placeholder_constructor_def)
  have remade': "childProps (fst (Placeholder_componentWillReceiveProps p ph))
       = Placeholder_sanitizeChildProps p"
    by (simp add: Placeholder_componentWillReceiveProps_def)
  have listed: "k \<in> set [''className'', ''style'', ''hoverStyle'', ''focusStyle'',
                 ''activeStyle'', ''disabledStyle'', ''disabledHoverStyle'', ''primary'',
                 ''onTouchStart'', ''onTouchEnd'', ''onTouchCancel'', ''onMouseDown'',
                 ''onFocus'', ''onBlur'']
        \<longrightarrow> sanitizeChildProps p k = None"
    by (simp add: sanitizeChildProps_def omit_def)
  have kept: "k \<notin> set [''className'', ''style'', ''hoverStyle'', ''focusStyle'',
                 ''activeStyle'', ''disabledStyle'', ''disabledHoverStyle'', ''primary'',
                 ''onTouchStart'', ''onTouchEnd'', ''onTouchCancel'', ''onMouseDown'',
                 ''onFocus'', ''onBlur'']
        \<and> k \<noteq> ''preventFocusStyleForTouchAndClick''
        \<longrightarrow> sanitizeChildProps p k = p k
            \<and> elProps (Button_render sty ucn (Button_constructor config p)) k = p k"
    by (simp add: sanitizeChildProps_def omit_def Button_render_def Button_constructor_def
          map_add_def split: option.split)
  have flag: "sanitizeChildProps p ''disabled'' = p ''disabled''"
    by (simp add: sanitizeChildProps_def omit_def)
  have listed': "k \<in> set [''style'', ''disabledStyle'', ''_isDisabled'']
        \<longrightarrow> Placeholder_sanitizeChildProps p k = None"
    by (simp add: Placeholder_sanitizeChildProps_def omit_def)
  have kept': "k \<notin> set [''style'', ''disabledStyle'', ''_isDisabled'']
        \<longrightarrow> Placeholder_sanitizeChildProps p k = p k
            \<and> elProps (Placeholder_render pst (Placeholder_constructor p)) k = p k"
    by (simp add: Placeholder_sanitizeChildProps_def omit_def Placeholder_render_def
          Placeholder_constructor_def map_add_def split: option.split)
  from made remade made' remade' listed kept flag listed' kept' show ?thesis by blast
qed

theorem sanitizeChildProps_denylist_witness:
  "''title'' \<notin> set [''className'', ''style'', ''hoverStyle'', ''focusStyle'', ''activeStyle'',
                 ''disabledStyle'', ''disabledHoverStyle'', ''primary'', ''onTouchStart'',
                 ''onTouchEnd'', ''onTouchCancel'', ''onMouseDown'', ''onFocus'', ''onBlur'']
   \<and> ''title'' \<noteq> ''preventFocusStyleForTouchAndClick''
   \<and> elProps (Button_render demoStyle demoUnionClassNames (Button_constructor Map.empty demoProps))
        ''title'' = Some (JStr ''Save'')
   \<and> ''title'' \<notin> set [''style'', ''disabledStyle'', ''_isDisabled'']
   \<and> elProps (Placeholder_render placeholderStyle (Placeholder_constructor placeholderProps))
        ''title'' = Some (JStr ''Pick one'')
   \<and> ''onTouchStart'' \<in> set [''className'', ''style'', ''hoverStyle'', ''focusStyle'',
                 ''activeStyle'', ''disabledStyle'', ''disabledHoverStyle'', ''primary'',
                 ''onTouchStart'', ''onTouchEnd'', ''onTouchCancel'', ''onMouseDown'',
                 ''onFocus'', ''onBlur'']
   \<and> sanitizeChildProps demoProps ''onTouchStart'' = None
   \<and> ''_isDisabled'' \<in> set [''style'', ''disabledStyle'', ''_isDisabled'']
   \<and> Placeholder_sanitizeChildProps placeholderProps ''_isDisabled'' = None"
proof -
  have t: "demoProps ''title'' = Some (JStr ''Save'')"
    "placeholderProps ''title'' = Some (JStr ''Pick one'')"
    by (simp_all add: demoProps_def placeholderProps_def)
  show ?thesis
    using sanitizeChildProps_denylist
            [where config = Map.empty and p = demoProps and sty = demoStyle
               and k = "''title''" and ucn = demoUnionClassNames]
      sanitizeChildProps_denylist
            [where p = placeholderProps and k = "''title''" and pst = placeholderStyle]
      sanitizeChildProps_denylist [where p = demoProps and k = "''onTouchStart''"]
      sanitizeChildProps_denylist [where p = placeholderProps and k = "''_isDisabled''"]
    by (simp add: t)
qed

text \<open>
  The claim as it is written fails on \<open>disabled\<close>: it is one of the Button's flags,
  the Button reads it itself, and a Button constructed with \<open>disabled\<close> true renders
  a native button that is given \<open>disabled\<close> true.
\<close>

theorem disabled_flag_forwarded_counterexample:
  "''disabled'' \<in> set Button_flags
   \<and> childProps (Button_constructor Map.empty disabledProps) ''disabled'' = Some (JBool True)
   \<and> elProps (Button_render demoStyle demoUnionClassNames
               (Button_constructor Map.empty disabledProps)) ''disabled''
       = Some (JBool True)"
  by (simp add: Button_flags_def Button_render_def Button_constructor_def sanitizeChildProps_def
        omit_def disabledProps_def map_add_def)

end
